theory Spec2Isabelle
  imports Main "HOL-Library.Sublist" "HOL-Library.Multiset"
begin

section \<open>Python strings\<close>

text \<open>
  A Python \<open>str\<close> is modelled as a \<^typ>\<open>string\<close> whose characters are the code points
  0 to 255 (Latin-1).  On that range \<open>str.strip()\<close>, \<open>str.lower()\<close>, \<open>len\<close> and the
  substring test \<open>in\<close> are the functions below; text with code points beyond 255 is
  outside the model.
\<close>

definition py_isspace :: "char \<Rightarrow> bool" where
  \<comment> \<open>the code points below 256 for which \<open>str.isspace\<close> holds\<close>
  "py_isspace c = ((of_char c :: nat) \<in> {9, 10, 11, 12, 13, 28, 29, 30, 31, 32, 133, 160})"

definition strip :: "string \<Rightarrow> string" where
  \<comment> \<open>\<open>s.strip()\<close>: whitespace removed at both ends\<close>
  "strip s = rev (dropWhile py_isspace (rev (dropWhile py_isspace s)))"

definition lower_char :: "char \<Rightarrow> char" where
  \<comment> \<open>\<open>A\<close> to \<open>Z\<close> and the Latin-1 capitals 192 to 222 (without the sign 215) move up by 32\<close>
  "lower_char c =
     (let n = (of_char c :: nat)
      in if (65 \<le> n \<and> n \<le> 90) \<or> (192 \<le> n \<and> n \<le> 222 \<and> n \<noteq> 215)
         then char_of (n + 32) else c)"

definition lower :: "string \<Rightarrow> string" where
  \<comment> \<open>\<open>s.lower()\<close>\<close>
  "lower s = map lower_char s"

fun contains :: "string \<Rightarrow> string \<Rightarrow> bool" where
  \<comment> \<open>\<open>contains s p\<close> is Python's \<open>p in s\<close>: \<open>p\<close> occurs in \<open>s\<close> as a contiguous run\<close>
  "contains [] p = (p = [])"
| "contains (c # cs) p = (prefix p (c # cs) \<or> contains cs p)"

fun digit_char :: "nat \<Rightarrow> char" where
  "digit_char n = char_of (48 + n)"

fun str_nat :: "nat \<Rightarrow> string" where
  "str_nat n = (if n < 10 then [digit_char n] else str_nat (n div 10) @ [digit_char (n mod 10)])"

declare str_nat.simps [simp del]

definition str_int :: "int \<Rightarrow> string" where
  \<comment> \<open>\<open>str(i)\<close> of a Python integer\<close>
  "str_int i = (if i < 0 then CHR ''-'' # str_nat (nat (- i)) else str_nat (nat i))"


section \<open>Data model\<close>

text \<open>
  An item of the chat-history table is a flat mapping in which every attribute may be
  missing: \<open>item.get("sql")\<close> is \<open>None\<close> then.  The text attributes are strings and the
  timestamp is an integer, as the table stores them.
\<close>

record item =
  item_sql :: "string option"
  item_question :: "string option"
  item_insights :: "string option"
  item_timestamp :: "int option"
  item_user_email :: "string option"
  item_session_id :: "string option"

text \<open>The six-key dictionary that \<open>scan_chat_history\<close> builds for a qualifying item.\<close>

record query =
  question :: string
  sql :: string
  insights :: string
  timestamp :: int
  user_email :: string
  session_id :: string

text \<open>
  A Python list holds references.  A store \<open>h\<close> reads the record a reference points to;
  \<open>filter_golden\<close> never writes to a record, so the store is an argument that no
  function returns changed.  With \<open>h = id\<close> the references are the records themselves.
\<close>

type_synonym 'r store = "'r \<Rightarrow> query"


section \<open>The filter\<close>

definition sort_timestamp_desc :: "'r store \<Rightarrow> 'r list \<Rightarrow> 'r list" where
  \<comment> \<open>\<open>queries.sort(key=lambda q: q["timestamp"], reverse=True)\<close>: Python's sort is stable,
      also under \<open>reverse=True\<close>, and a stable sort has one possible result: that of the
      stable insertion sort \<^const>\<open>sort_key\<close> on the negated key.\<close>
  "sort_timestamp_desc h queries = sort_key (\<lambda>q. - timestamp (h q)) queries"

definition too_short :: "string \<Rightarrow> bool" where
  \<comment> \<open>\<open>len(question) < 15\<close>, on the stripped question\<close>
  "too_short question' = (length question' < 15)"

definition error_without_select :: "string \<Rightarrow> bool" where
  \<comment> \<open>\<open>"error" in q["sql"].lower() and "select" not in q["sql"].lower()\<close>\<close>
  "error_without_select s = (contains (lower s) ''error'' \<and> \<not> contains (lower s) ''select'')"

text \<open>
  The \<open>for\<close> loop of \<open>filter_golden\<close>, over the part of the sorted list still to visit,
  with the loop's two variables \<open>seen_questions\<close> and \<open>golden\<close>.  \<open>continue\<close> is the
  recursive call on the rest, \<open>break\<close> returns \<open>golden\<close> at once.
\<close>

fun filter_loop :: "'r store \<Rightarrow> int \<Rightarrow> 'r list \<Rightarrow> string set \<Rightarrow> 'r list \<Rightarrow> 'r list" where
  "filter_loop h target [] seen_questions golden = golden"
| "filter_loop h target (q # rest) seen_questions golden =
     (let question' = strip (question (h q));
          q_normalized = lower question'
      in if q_normalized \<in> seen_questions then filter_loop h target rest seen_questions golden
         else let seen_questions' = insert q_normalized seen_questions
           in if too_short question' then filter_loop h target rest seen_questions' golden
              else if error_without_select (sql (h q))
                then filter_loop h target rest seen_questions' golden
              else let golden' = golden @ [q]
                in if int (length golden') \<ge> target then golden'
                   else filter_loop h target rest seen_questions' golden')"

definition filter_golden :: "'r store \<Rightarrow> 'r list \<Rightarrow> int \<Rightarrow> 'r list \<times> 'r list" where
  \<comment> \<open>returns the caller's list as the call leaves it (sorted in place) and the result\<close>
  "filter_golden h queries target =
     (let queries' = sort_timestamp_desc h queries
      in (queries', filter_loop h target queries' {} []))"

text \<open>
  The notions the properties of the filter are stated with: the normalized question of a
  record, the two quality checks taken together, and the candidates that pass the
  deduplication and quality checks when a list is visited front to back with a given
  set of questions already seen (a question counts as seen from its first visit on).
\<close>

definition q_normalized :: "'r store \<Rightarrow> 'r \<Rightarrow> string" where
  "q_normalized h q = lower (strip (question (h q)))"

definition quality_ok :: "'r store \<Rightarrow> 'r \<Rightarrow> bool" where
  "quality_ok h q = (\<not> too_short (strip (question (h q))) \<and> \<not> error_without_select (sql (h q)))"

fun passing :: "'r store \<Rightarrow> 'r list \<Rightarrow> string set \<Rightarrow> 'r list" where
  "passing h [] seen = []"
| "passing h (q # rest) seen =
     (if q_normalized h q \<in> seen then passing h rest seen
      else if quality_ok h q then q # passing h rest (insert (q_normalized h q) seen)
      else passing h rest (insert (q_normalized h q) seen))"


section \<open>The fetcher\<close>

datatype exn = KeyError | AttributeError | TypeError | OtherError string

text \<open>
  One response of \<open>table.scan\<close>.  \<open>Items\<close> is \<open>None\<close> when the key is missing;
  \<open>LastEvaluatedKey\<close> is \<open>None\<close> when the key is missing or its value is falsy.
\<close>

record 'k scan_response =
  Items :: "item list option"
  LastEvaluatedKey :: "'k option"

definition truthy :: "string option \<Rightarrow> bool" where
  \<comment> \<open>Python's truth value of \<open>item.get(key)\<close>: \<open>None\<close> and the empty string are false\<close>
  "truthy v = (case v of None \<Rightarrow> False | Some s \<Rightarrow> s \<noteq> [])"

definition get_or :: "'a option \<Rightarrow> 'a \<Rightarrow> 'a" where
  \<comment> \<open>\<open>d.get(key, default)\<close>\<close>
  "get_or v d = (case v of None \<Rightarrow> d | Some x \<Rightarrow> x)"

definition make_query :: "item \<Rightarrow> query" where
  \<comment> \<open>the dictionary appended for an item whose three text attributes are truthy\<close>
  "make_query it =
     \<lparr>question = get_or (item_question it) [],
      sql = get_or (item_sql it) [],
      insights = get_or (item_insights it) [],
      timestamp = get_or (item_timestamp it) 0,
      user_email = get_or (item_user_email it) [],
      session_id = get_or (item_session_id it) []\<rparr>"

fun scan_items :: "item list \<Rightarrow> query list \<Rightarrow> query list" where
  \<comment> \<open>the inner loop \<open>for item in items\<close>, appending to \<open>queries\<close>\<close>
  "scan_items [] queries = queries"
| "scan_items (it # items) queries =
     (if truthy (item_sql it) \<and> truthy (item_question it) \<and> truthy (item_insights it)
      then scan_items items (queries @ [make_query it])
      else scan_items items queries)"

text \<open>
  The \<open>while True\<close> loop.  The table is a function from the scan arguments (no start key,
  or \<open>ExclusiveStartKey\<close>) to a response or to the exception \<open>table.scan\<close> raises.  A table
  that hands out a next key for ever keeps the loop running: the result is \<open>None\<close>.
\<close>

partial_function (option) scan_loop ::
  "('k option \<Rightarrow> exn + 'k scan_response) \<Rightarrow> 'k option \<Rightarrow> query list \<Rightarrow> (exn + query list) option"
where
  "scan_loop scan scan_kwargs queries =
     (case scan scan_kwargs of
        Inl e \<Rightarrow> Some (Inl e)
      | Inr response \<Rightarrow>
          (let queries' = scan_items (get_or (Items response) []) queries
           in case LastEvaluatedKey response of
                None \<Rightarrow> Some (Inr queries')
              | Some last_key \<Rightarrow> scan_loop scan (Some last_key) queries'))"

declare scan_loop.simps [code]

definition scan_chat_history ::
  "('k option \<Rightarrow> exn + 'k scan_response) \<Rightarrow> (exn + query list) option" where
  "scan_chat_history scan = scan_loop scan None []"

text \<open>
  The pages a scan visits from a start key on: each page but the last names the key of
  the next one, and no call raises.
\<close>

inductive scan_pages ::
  "('k option \<Rightarrow> exn + 'k scan_response) \<Rightarrow> 'k option \<Rightarrow> 'k scan_response list \<Rightarrow> bool"
  for scan :: "'k option \<Rightarrow> exn + 'k scan_response"
where
  last_page: "scan k = Inr r \<Longrightarrow> LastEvaluatedKey r = None \<Longrightarrow> scan_pages scan k [r]"
| next_page: "scan k = Inr r \<Longrightarrow> LastEvaluatedKey r = Some k' \<Longrightarrow> scan_pages scan (Some k') rs
              \<Longrightarrow> scan_pages scan k (r # rs)"

code_pred (modes: i \<Rightarrow> i \<Rightarrow> i \<Rightarrow> bool) scan_pages .

definition scanned_items :: "'k scan_response list \<Rightarrow> item list" where
  "scanned_items pages = concat (map (\<lambda>r. get_or (Items r) []) pages)"

definition qualifies :: "item \<Rightarrow> bool" where
  \<comment> \<open>the test \<open>if sql and question and insights\<close>\<close>
  "qualifies it = (truthy (item_sql it) \<and> truthy (item_question it) \<and> truthy (item_insights it))"


section \<open>The publisher\<close>

definition PHOENIX_URL_default :: string where
  "PHOENIX_URL_default = ''https://phoenix.songbird.live''"

definition CHAT_HISTORY_TABLE_default :: string where
  "CHAT_HISTORY_TABLE_default = ''songbird-chat-history''"

definition DATASET_NAME :: string where
  "DATASET_NAME = ''analytics-golden-queries''"

definition DATASET_DESCRIPTION :: string where
  "DATASET_DESCRIPTION = ''Curated high-quality analytics queries for evaluation and testing''"

definition TARGET_COUNT :: int where
  "TARGET_COUNT = 50"

text \<open>
  The three list comprehensions of \<open>main\<close>.  A dictionary with string values is an
  association list, in the order the source writes its keys.
\<close>

type_synonym pydict = "(string \<times> string) list"

definition inputs :: "query list \<Rightarrow> pydict list" where
  "inputs golden = map (\<lambda>g. [(''question'', question g)]) golden"

definition outputs :: "query list \<Rightarrow> pydict list" where
  "outputs golden = map (\<lambda>g. [(''sql'', sql g), (''insights'', insights g)]) golden"

definition metadata :: "query list \<Rightarrow> pydict list" where
  "metadata golden =
     map (\<lambda>g. [(''source'', ''dynamodb_chat_history''),
               (''user_email'', user_email g),
               (''session_id'', session_id g),
               (''timestamp'', str_int (timestamp g))]) golden"

text \<open>The keyword arguments of \<open>client.datasets.create_dataset\<close>.\<close>

record upload =
  upload_name :: string
  upload_dataset_description :: string
  upload_inputs :: "pydict list"
  upload_outputs :: "pydict list"
  upload_metadata :: "pydict list"

definition build_upload :: "query list \<Rightarrow> upload" where
  "build_upload golden =
     \<lparr>upload_name = DATASET_NAME,
      upload_dataset_description = DATASET_DESCRIPTION,
      upload_inputs = inputs golden,
      upload_outputs = outputs golden,
      upload_metadata = metadata golden\<rparr>"

text \<open>
  What \<open>resp.json()\<close> returns.  An object is the parsed dictionary, its keys distinct;
  numbers are integers.
\<close>

datatype json = JNull | JBool bool | JNum int | JStr string | JArr "json list"
  | JObj "(string \<times> json) list"

fun py_get :: "json \<Rightarrow> string \<Rightarrow> json \<Rightarrow> exn + json" where
  \<comment> \<open>\<open>x.get(key, default)\<close>: only a dictionary has the method\<close>
  "py_get (JObj kvs) key dflt = Inr (get_or (map_of kvs key) dflt)"
| "py_get _ key dflt = Inl AttributeError"

fun py_index :: "json \<Rightarrow> string \<Rightarrow> exn + json" where
  \<comment> \<open>\<open>x[key]\<close> with a string key\<close>
  "py_index (JObj kvs) key = (case map_of kvs key of None \<Rightarrow> Inl KeyError | Some v \<Rightarrow> Inr v)"
| "py_index _ key = Inl TypeError"

fun py_iter :: "json \<Rightarrow> exn + json list" where
  \<comment> \<open>the elements \<open>for d in x\<close> visits: a dictionary yields its keys, a string its characters\<close>
  "py_iter (JArr xs) = Inr xs"
| "py_iter (JObj kvs) = Inr (map (\<lambda>kv. JStr (fst kv)) kvs)"
| "py_iter (JStr s) = Inr (map (\<lambda>c. JStr [c]) s)"
| "py_iter _ = Inl TypeError"

definition node_name :: "json \<Rightarrow> exn + json" where
  \<comment> \<open>\<open>d["node"]["name"]\<close>\<close>
  "node_name d =
     (case py_index d ''node'' of Inl e \<Rightarrow> Inl e | Inr node \<Rightarrow> py_index node ''name'')"

fun find_match :: "json list \<Rightarrow> json list \<Rightarrow> exn + json list" where
  \<comment> \<open>\<open>[d for d in datasets if d["node"]["name"] == DATASET_NAME]\<close>, the list built so far
      as second argument; the first element that cannot be read raises\<close>
  "find_match [] match = Inr match"
| "find_match (d # datasets) match =
     (case node_name d of
        Inl e \<Rightarrow> Inl e
      | Inr name \<Rightarrow>
          find_match datasets (if name = JStr DATASET_NAME then match @ [d] else match))"

definition lookup_datasets :: "json \<Rightarrow> exn + json list" where
  \<comment> \<open>from \<open>resp.json()\<close> to \<open>match\<close>\<close>
  "lookup_datasets body =
     (case py_get body ''data'' (JObj []) of
        Inl e \<Rightarrow> Inl e
      | Inr data \<Rightarrow>
          (case py_get data ''datasets'' (JObj []) of
             Inl e \<Rightarrow> Inl e
           | Inr ds \<Rightarrow>
               (case py_get ds ''edges'' (JArr []) of
                  Inl e \<Rightarrow> Inl e
                | Inr datasets \<Rightarrow>
                    (case py_iter datasets of
                       Inl e \<Rightarrow> Inl e
                     | Inr elems \<Rightarrow> find_match elems []))))"

definition example_count :: "json \<Rightarrow> exn + json" where
  \<comment> \<open>\<open>d["node"]["exampleCount"]\<close>\<close>
  "example_count d =
     (case py_index d ''node'' of Inl e \<Rightarrow> Inl e | Inr node \<Rightarrow> py_index node ''exampleCount'')"

text \<open>
  Console output, one constructor for each \<open>print\<close> with the values it formats, and the
  way a run ends: \<open>sys.exit(n)\<close>, or an exception nobody catches.  A \<open>main\<close> that returns
  ends the process with status 0.
\<close>

datatype msg =
    Missing_dependency
  | Install_hint
  | Scanning string
  | Found nat
  | No_queries_found
  | Filtered_to nat
  | No_examples_passed
  | Sample_examples
  | Sample_question nat string
  | Sample_sql string
  | Sample_insights string
  | Connecting string
  | Creating string nat
  | Created
  | Created_verified json
  | Upload_warning exn
  | View_in string
  | Navigate_to string

datatype outcome = Exit nat | Uncaught exn

fun process_status :: "outcome \<Rightarrow> nat" where
  \<comment> \<open>the status the process ends with: that of \<open>sys.exit\<close>, and 1 when an exception nobody
      catches ends it (the interpreter prints the traceback and exits with status 1)\<close>
  "process_status (Exit n) = n"
| "process_status (Uncaught e) = 1"

text \<open>
  Everything outside the script: whether the two imports succeed, the two environment
  variables, the table behind \<open>table.scan\<close> (by table name), the dataset service behind
  \<open>create_dataset\<close> (by base URL; \<open>None\<close> when the call returns, the exception when it
  raises one that \<open>except Exception\<close> catches), and the answer to the \<open>httpx.post\<close> of the
  GraphQL query followed by \<open>resp.json()\<close> (by URL; the body, or the exception either call
  raises).
\<close>

record 'k world =
  import_ok :: bool
  env_PHOENIX_URL :: "string option"
  env_CHAT_HISTORY_TABLE :: "string option"
  dynamodb_scan :: "string \<Rightarrow> 'k option \<Rightarrow> exn + 'k scan_response"
  create_dataset :: "string \<Rightarrow> upload \<Rightarrow> exn option"
  graphql_post :: "string \<Rightarrow> exn + json"

definition PHOENIX_URL :: "'k world \<Rightarrow> string" where
  "PHOENIX_URL w = get_or (env_PHOENIX_URL w) PHOENIX_URL_default"

definition CHAT_HISTORY_TABLE :: "'k world \<Rightarrow> string" where
  "CHAT_HISTORY_TABLE w = get_or (env_CHAT_HISTORY_TABLE w) CHAT_HISTORY_TABLE_default"

fun samples :: "nat \<Rightarrow> query list \<Rightarrow> msg list" where
  \<comment> \<open>the three prints for each of \<open>golden[i]\<close>, from index \<open>i\<close> on\<close>
  "samples i [] = []"
| "samples i (g # gs) =
     [Sample_question (i + 1) (take 100 (question g)),
      Sample_sql (take 100 (sql g)),
      Sample_insights (take 100 (insights g))] @ samples (i + 1) gs"

definition verify :: "'k world \<Rightarrow> exn \<Rightarrow> msg list \<times> outcome" where
  \<comment> \<open>the \<open>except\<close> branch, with the exception \<open>e\<close> of the upload; an exception raised in
      here is caught by nobody\<close>
  "verify w e =
     (case graphql_post w (PHOENIX_URL w @ ''/graphql'') of
        Inl e' \<Rightarrow> ([], Uncaught e')
      | Inr body \<Rightarrow>
          (case lookup_datasets body of
             Inl e' \<Rightarrow> ([], Uncaught e')
           | Inr [] \<Rightarrow> ([Upload_warning e], Exit 1)
           | Inr (m # ms) \<Rightarrow>
               (case example_count m of
                  Inl e' \<Rightarrow> ([], Uncaught e')
                | Inr count' \<Rightarrow>
                    ([Created_verified count',
                      View_in (PHOENIX_URL w), Navigate_to DATASET_NAME], Exit 0))))"

definition publish :: "'k world \<Rightarrow> query list \<Rightarrow> msg list \<times> outcome" where
  \<comment> \<open>\<open>main\<close> from the sample preview on\<close>
  "publish w golden =
     (let out = Sample_examples # samples 0 (take (min 3 (length golden)) golden) @
                [Connecting (PHOENIX_URL w), Creating DATASET_NAME (length golden)]
      in case create_dataset w (PHOENIX_URL w) (build_upload golden) of
           None \<Rightarrow>
             (out @ [Created, View_in (PHOENIX_URL w), Navigate_to DATASET_NAME], Exit 0)
         | Some e \<Rightarrow> (out @ fst (verify w e), snd (verify w e)))"

definition main :: "'k world \<Rightarrow> (msg list \<times> outcome) option" where
  \<comment> \<open>\<open>None\<close> when the scan never ends\<close>
  "main w =
     (case scan_chat_history (dynamodb_scan w (CHAT_HISTORY_TABLE w)) of
        None \<Rightarrow> None
      | Some (Inl e) \<Rightarrow> Some ([Scanning (CHAT_HISTORY_TABLE w)], Uncaught e)
      | Some (Inr queries) \<Rightarrow>
          (let out = [Scanning (CHAT_HISTORY_TABLE w), Found (length queries)]
           in if length queries = 0 then Some (out @ [No_queries_found], Exit 1)
              else let golden = snd (filter_golden id queries TARGET_COUNT);
                       out' = out @ [Filtered_to (length golden)]
                in if length golden = 0 then Some (out' @ [No_examples_passed], Exit 1)
                   else Some (out' @ fst (publish w golden), snd (publish w golden))))"

definition run :: "'k world \<Rightarrow> (msg list \<times> outcome) option" where
  \<comment> \<open>the script: the guarded imports, then \<open>main()\<close>\<close>
  "run w =
     (if import_ok w then main w
      else Some ([Missing_dependency, Install_hint], Exit 1))"


section \<open>Example data\<close>

definition ex_old :: query where
  "ex_old = \<lparr>question = ''What is the average temperature?'',
            sql = ''SELECT avg(temp) FROM readings'',
            insights = ''The average is 21 degrees'',
            timestamp = 10, user_email = ''ann@example.com'', session_id = ''s1''\<rparr>"

definition ex_top :: query where
  "ex_top = \<lparr>question = ''Which device reported the last error?'',
            sql = ''select device from events where kind = 0'',
            insights = ''Device 7 reported it'',
            timestamp = 30, user_email = [], session_id = ''s2''\<rparr>"

definition ex_mid :: query where
  "ex_mid = \<lparr>question = ''How many devices are online now?'',
            sql = ''SELECT count(*) FROM devices'',
            insights = ''12 devices are online'',
            timestamp = 20, user_email = ''bob@example.com'', session_id = ''s3''\<rparr>"

definition ex_failed :: query where
  \<comment> \<open>the question of \<open>ex_old\<close> asked again later, with an error trace filed as its query\<close>
  "ex_failed = \<lparr>question = ''  what is the AVERAGE temperature? '',
               sql = ''Syntax ERROR near FROM'',
               insights = ''No result'',
               timestamp = 40, user_email = ''ann@example.com'', session_id = ''s4''\<rparr>"

definition ex_store :: "nat \<Rightarrow> query" where
  \<comment> \<open>three records at the addresses 0, 1 and 2\<close>
  "ex_store r = (if r = 0 then ex_old else if r = 1 then ex_top else ex_mid)"

definition ex_item :: item where
  "ex_item = \<lparr>item_sql = Some ''SELECT avg(temp) FROM readings'',
             item_question = Some ''What is the average temperature?'',
             item_insights = Some ''The average is 21 degrees'',
             item_timestamp = Some 10,
             item_user_email = None,
             item_session_id = Some ''s1''\<rparr>"

definition ex_item_no_sql :: item where
  "ex_item_no_sql = ex_item\<lparr>item_sql := None\<rparr>"

definition ex_item_empty_insights :: item where
  "ex_item_empty_insights = ex_item\<lparr>item_insights := Some []\<rparr>"

definition ex_item_short :: item where
  "ex_item_short = ex_item\<lparr>item_question := Some ''Why?''\<rparr>"

definition ex_scan :: "nat option \<Rightarrow> exn + nat scan_response" where
  \<comment> \<open>a table of two pages\<close>
  "ex_scan k =
     (if k = None then Inr \<lparr>Items = Some [ex_item_no_sql, ex_item], LastEvaluatedKey = Some 1\<rparr>
      else Inr \<lparr>Items = Some [ex_item_empty_insights, ex_item_short], LastEvaluatedKey = None\<rparr>)"

definition ex_one_page :: "item list \<Rightarrow> nat option \<Rightarrow> exn + nat scan_response" where
  "ex_one_page items k = Inr \<lparr>Items = Some items, LastEvaluatedKey = None\<rparr>"

definition ex_edge :: "string \<Rightarrow> int \<Rightarrow> json" where
  "ex_edge n c = JObj [(''node'', JObj [(''name'', JStr n), (''exampleCount'', JNum c)])]"

definition ex_body :: "json list \<Rightarrow> json" where
  "ex_body edges = JObj [(''data'', JObj [(''datasets'', JObj [(''edges'', JArr edges)])])]"

definition ex_world :: "nat world" where
  \<comment> \<open>one qualifying record; the upload raises; the service lists the dataset with 42 examples\<close>
  "ex_world =
     \<lparr>import_ok = True, env_PHOENIX_URL = None, env_CHAT_HISTORY_TABLE = None,
      dynamodb_scan = (\<lambda>t. ex_one_page [ex_item]),
      create_dataset = (\<lambda>url u. Some KeyError),
      graphql_post = (\<lambda>url. Inr (ex_body [ex_edge ''other'' 7, ex_edge DATASET_NAME 42]))\<rparr>"

definition ex_world_unconfirmed :: "nat world" where
  "ex_world_unconfirmed = ex_world\<lparr>graphql_post := (\<lambda>url. Inr (ex_body [ex_edge ''other'' 7]))\<rparr>"

definition ex_world_no_imports :: "nat world" where
  \<comment> \<open>the same table, a dataset service that accepts the upload, and a missing package\<close>
  "ex_world_no_imports = ex_world\<lparr>import_ok := False, create_dataset := (\<lambda>url u. None)\<rparr>"


definition ex_world_no_count :: "nat world" where
  \<comment> \<open>the upload raises; the service lists the dataset, with no example count in its node\<close>
  "ex_world_no_count =
     ex_world\<lparr>graphql_post := (\<lambda>url. Inr (ex_body
        [JObj [(''node'', JObj [(''name'', JStr ''analytics-golden-queries'')])]]))\<rparr>"

definition ex_world_scan_raises :: "nat world" where
  \<comment> \<open>the table refuses the scan\<close>
  "ex_world_scan_raises =
     ex_world\<lparr>dynamodb_scan := (\<lambda>t k. Inl (OtherError ''AccessDeniedException''))\<rparr>"


section \<open>Properties of the string functions\<close>

lemma contains_sublist: "contains s p \<longleftrightarrow> sublist p s"
  by (induction s) (auto simp: sublist_Cons_right)

lemma length_lower: "length (lower s) = length s"
  by (simp add: lower_def)


section \<open>Properties of the filter\<close>

text \<open>
  The loop returns what it holds on entry, followed by the first candidates that pass,
  as many as the target still allows, and at least one: the length is compared with the
  target only after an append.
\<close>

lemma filter_loop_passing:
  "filter_loop h target qs seen golden =
     golden @ take (max 1 (nat target - length golden)) (passing h qs seen)"
proof (induction qs arbitrary: seen golden)
  case Nil
  show ?case by simp
next
  case (Cons q rest)
  show ?case
  proof (cases "q_normalized h q \<in> seen")
    case True
    then show ?thesis using Cons.IH [of seen golden]
      by (simp add: q_normalized_def Let_def)
  next
    case unseen: False
    show ?thesis
    proof (cases "quality_ok h q")
      case False
      then show ?thesis using unseen Cons.IH [of "insert (q_normalized h q) seen" golden]
        by (auto simp add: q_normalized_def quality_ok_def Let_def)
    next
      case ok: True
      show ?thesis
      proof (cases "target \<le> int (length golden) + 1")
        case True
        then have "max 1 (nat target - length golden) = Suc 0" by auto
        then show ?thesis using unseen ok True
          by (simp add: q_normalized_def quality_ok_def Let_def)
      next
        case False
        then have "max 1 (nat target - length golden) =
                   Suc (max 1 (nat target - length (golden @ [q])))"
          by auto
        then show ?thesis
          using unseen ok False Cons.IH [of "insert (q_normalized h q) seen" "golden @ [q]"]
          by (simp add: q_normalized_def quality_ok_def Let_def)
      qed
    qed
  qed
qed

lemma passing_subseq: "subseq (passing h qs seen) qs"
  by (induction qs arbitrary: seen) auto

lemma passing_unseen: "q \<in> set (passing h qs seen) \<Longrightarrow> q_normalized h q \<notin> seen"
  by (induction qs arbitrary: seen) (auto split: if_splits)

lemma passing_distinct: "distinct (map (q_normalized h) (passing h qs seen))"
  by (induction qs arbitrary: seen) (auto dest: passing_unseen)

lemma passing_quality: "q \<in> set (passing h qs seen) \<Longrightarrow> quality_ok h q"
  by (induction qs arbitrary: seen) (auto split: if_splits)

lemma passing_blocked:
  "find (\<lambda>q. q_normalized h q = k) qs = Some q \<Longrightarrow> \<not> quality_ok h q \<Longrightarrow>
   g \<in> set (passing h qs seen) \<Longrightarrow> q_normalized h g \<noteq> k"
proof (induction qs arbitrary: seen)
  case Nil
  then show ?case by simp
next
  case (Cons x rest)
  show ?case
  proof (cases "q_normalized h x = k")
    case True
    with Cons.prems have "x = q" by simp
    with Cons.prems True show ?thesis
      by (auto dest: passing_unseen split: if_splits)
  next
    case False
    with Cons.prems have "find (\<lambda>q. q_normalized h q = k) rest = Some q" by simp
    from Cons.IH [OF this Cons.prems(2)] Cons.prems(3) False show ?thesis
      by (auto split: if_splits)
  qed
qed

lemma golden_take:
  "snd (filter_golden h queries target) =
     take (max 1 (nat target)) (passing h (sort_timestamp_desc h queries) {})"
  by (simp add: filter_golden_def Let_def filter_loop_passing)

lemma filter_golden_target_below_one:
  "target < 1 \<Longrightarrow>
   snd (filter_golden h queries target) = take 1 (passing h (sort_timestamp_desc h queries) {})"
  by (simp add: golden_take)

lemma golden_subset_passing:
  "set (snd (filter_golden h queries target)) \<subseteq> set (passing h (sort_timestamp_desc h queries) {})"
  unfolding golden_take by (rule set_take_subset)

lemma sort_timestamp_desc_sorted:
  "sorted_wrt (\<lambda>a b. timestamp (h a) \<ge> timestamp (h b)) (sort_timestamp_desc h queries)"
proof -
  have "sorted (map (\<lambda>q. - timestamp (h q)) (sort_timestamp_desc h queries))"
    unfolding sort_timestamp_desc_def by (rule sorted_sort_key)
  then show ?thesis by (simp add: sorted_map)
qed

lemma sort_timestamp_desc_stable:
  "filter (\<lambda>q. timestamp (h q) = t) (sort_timestamp_desc h queries) =
   filter (\<lambda>q. timestamp (h q) = t) queries"
proof -
  have "filter (\<lambda>q. - timestamp (h q) = - t) (sort_key (\<lambda>q. - timestamp (h q)) queries) =
        filter (\<lambda>q. - timestamp (h q) = - t) queries"
    by (rule sort_key_stable)
  then show ?thesis by (simp add: sort_timestamp_desc_def)
qed

lemma sort_timestamp_desc_mset: "mset (sort_timestamp_desc h queries) = mset queries"
  by (simp add: sort_timestamp_desc_def)

text \<open>
  Any stable sort into non-increasing timestamp order gives this list: a permutation of
  the input that is ordered and keeps the order within every timestamp is the result.
\<close>

lemma sort_timestamp_desc_unique:
  assumes "mset ys = mset queries"
    and "sorted_wrt (\<lambda>a b. timestamp (h a) \<ge> timestamp (h b)) ys"
    and "\<And>t. filter (\<lambda>q. timestamp (h q) = t) ys = filter (\<lambda>q. timestamp (h q) = t) queries"
  shows "sort_timestamp_desc h queries = ys"
  unfolding sort_timestamp_desc_def
proof (rule properties_for_sort_key)
  show "mset ys = mset queries" by (rule assms(1))
next
  fix k assume "k \<in> set ys"
  have "filter (\<lambda>x. timestamp (h x) = timestamp (h k)) ys =
        filter (\<lambda>x. timestamp (h x) = timestamp (h k)) queries" by (rule assms(3))
  moreover have "(\<lambda>x. - timestamp (h k) = - timestamp (h x)) =
                 (\<lambda>x. timestamp (h x) = timestamp (h k))"
    by auto
  ultimately show "filter (\<lambda>x. - timestamp (h k) = - timestamp (h x)) ys =
        filter (\<lambda>x. - timestamp (h k) = - timestamp (h x)) queries" by simp
next
  from assms(2) show "sorted (map (\<lambda>q. - timestamp (h q)) ys)" by (simp add: sorted_map)
qed

lemma sorted_wrt_subseq: "subseq xs ys \<Longrightarrow> sorted_wrt R ys \<Longrightarrow> sorted_wrt R xs"
  by (induction rule: list_emb.induct) (auto dest: list_emb_set)

lemma golden_subseq:
  "subseq (snd (filter_golden h queries target)) (sort_timestamp_desc h queries)"
proof -
  have "subseq (take (max 1 (nat target)) (passing h (sort_timestamp_desc h queries) {}))
          (passing h (sort_timestamp_desc h queries) {})"
    by (rule prefix_imp_subseq) (rule take_is_prefix)
  then show ?thesis
    unfolding golden_take using passing_subseq subseq_order.trans by blast
qed

text \<open>
  C3, as stated, fails for a target below one: with target 0 and one candidate that
  passes, the result holds that candidate.
\<close>

theorem filter_golden_size_counterexample:
  "\<not> int (length (snd (filter_golden id [ex_old] 0))) \<le> 0"
  by code_simp

text \<open>
  C3, amended: for every candidate list and every target count of at least one, the result
  is the first \<open>target\<close> candidates that pass the deduplication and quality checks.  So
  its length is at most the target, is the target when at least that many pass, and all
  that pass are returned when fewer do.
\<close>

theorem filter_golden_size:
  assumes "1 \<le> target"
  shows "snd (filter_golden h queries target) =
           take (nat target) (passing h (sort_timestamp_desc h queries) {}) \<and>
         int (length (snd (filter_golden h queries target))) \<le> target \<and>
         (target \<le> int (length (passing h (sort_timestamp_desc h queries) {})) \<longrightarrow>
            int (length (snd (filter_golden h queries target))) = target) \<and>
         (int (length (passing h (sort_timestamp_desc h queries) {})) < target \<longrightarrow>
            snd (filter_golden h queries target) = passing h (sort_timestamp_desc h queries) {})"
proof -
  from assms have "max 1 (nat target) = nat target" by simp
  then have eq: "snd (filter_golden h queries target) =
      take (nat target) (passing h (sort_timestamp_desc h queries) {})"
    by (simp add: golden_take)
  from assms show ?thesis unfolding eq by auto
qed

theorem filter_golden_size_witness:
  "(1::int) \<le> 2 \<and> (1::int) \<le> 50 \<and>
   passing id (sort_timestamp_desc id [ex_old, ex_top, ex_mid]) {} = [ex_top, ex_mid, ex_old] \<and>
   snd (filter_golden id [ex_old, ex_top, ex_mid] 2) = [ex_top, ex_mid] \<and>
   snd (filter_golden id [ex_old, ex_top, ex_mid] 50) = [ex_top, ex_mid, ex_old]"
proof -
  have p: "passing id (sort_timestamp_desc id [ex_old, ex_top, ex_mid]) {} = [ex_top, ex_mid, ex_old]"
    by code_simp
  have two: "(1::int) \<le> 2" and fifty: "(1::int) \<le> 50" by simp_all
  from filter_golden_size [OF two, of id "[ex_old, ex_top, ex_mid]"] p
  have a: "snd (filter_golden id [ex_old, ex_top, ex_mid] 2) = [ex_top, ex_mid]" by simp
  from filter_golden_size [OF fifty, of id "[ex_old, ex_top, ex_mid]"] p
  have b: "snd (filter_golden id [ex_old, ex_top, ex_mid] 50) = [ex_top, ex_mid, ex_old]" by simp
  from p a b show ?thesis by simp
qed

text \<open>
  C4: the result is ordered by non-increasing timestamp, and for every timestamp the
  records of the result that bear it stand in the order they had in the list before the
  sort.
\<close>

theorem filter_golden_order:
  "sorted_wrt (\<lambda>a b. timestamp (h a) \<ge> timestamp (h b)) (snd (filter_golden h queries target)) \<and>
   subseq (filter (\<lambda>q. timestamp (h q) = t) (snd (filter_golden h queries target)))
          (filter (\<lambda>q. timestamp (h q) = t) queries)"
proof
  show "sorted_wrt (\<lambda>a b. timestamp (h a) \<ge> timestamp (h b)) (snd (filter_golden h queries target))"
    using golden_subseq sort_timestamp_desc_sorted by (rule sorted_wrt_subseq)
next
  have "subseq (filter (\<lambda>q. timestamp (h q) = t) (snd (filter_golden h queries target)))
          (filter (\<lambda>q. timestamp (h q) = t) (sort_timestamp_desc h queries))"
    using golden_subseq by (rule subseq_filter)
  then show "subseq (filter (\<lambda>q. timestamp (h q) = t) (snd (filter_golden h queries target)))
          (filter (\<lambda>q. timestamp (h q) = t) queries)"
    by (simp only: sort_timestamp_desc_stable)
qed

text \<open>
  C5: no two examples of the result have the same normalized (stripped, lower-cased)
  question.
\<close>

theorem filter_golden_unique:
  "distinct (map (q_normalized h) (snd (filter_golden h queries target)))"
proof -
  have "distinct (take (max 1 (nat target))
          (map (q_normalized h) (passing h (sort_timestamp_desc h queries) {})))"
    using passing_distinct by (rule distinct_take)
  then show ?thesis unfolding golden_take by (simp only: take_map)
qed

text \<open>
  C7: every example of the result has a stripped question of at least 15 characters, and
  its query text does not both contain \<open>error\<close> and lack \<open>select\<close> (case-insensitively).
\<close>

theorem filter_golden_quality:
  assumes "g \<in> set (snd (filter_golden h queries target))"
  shows "15 \<le> length (strip (question (h g))) \<and>
         \<not> (contains (lower (sql (h g))) ''error'' \<and> \<not> contains (lower (sql (h g))) ''select'')"
proof -
  have "g \<in> set (passing h (sort_timestamp_desc h queries) {})"
    using golden_subset_passing assms by (rule subsetD)
  then have "quality_ok h g" by (rule passing_quality)
  then show ?thesis by (simp add: quality_ok_def too_short_def error_without_select_def)
qed

theorem filter_golden_quality_witness:
  "ex_mid \<in> set (snd (filter_golden id [ex_old, ex_failed, ex_mid] 50)) \<and>
   15 \<le> length (strip (question ex_mid)) \<and>
   \<not> (contains (lower (sql ex_mid)) ''error'' \<and> \<not> contains (lower (sql ex_mid)) ''select'')"
proof -
  have h: "ex_mid \<in> set (snd (filter_golden id [ex_old, ex_failed, ex_mid] 50))"
    by code_simp
  from h filter_golden_quality [OF h] show ?thesis by simp
qed

text \<open>
  C9: a normalized question is recorded as seen before the quality checks.  When the most
  recent record with a given normalized question (the first one in the sorted list) fails
  a quality check, no record with that normalized question is in the result, whatever the
  quality of the older ones.
\<close>

theorem filter_golden_seen_before_quality:
  assumes "find (\<lambda>q. q_normalized h q = k) (sort_timestamp_desc h queries) = Some q"
    and "\<not> quality_ok h q"
  shows "k \<notin> q_normalized h ` set (snd (filter_golden h queries target))"
proof
  assume "k \<in> q_normalized h ` set (snd (filter_golden h queries target))"
  then obtain g where g: "g \<in> set (snd (filter_golden h queries target))"
    and k: "q_normalized h g = k" by auto
  have "g \<in> set (passing h (sort_timestamp_desc h queries) {})"
    using golden_subset_passing g by (rule subsetD)
  from passing_blocked [OF assms this] k show False by simp
qed

theorem filter_golden_seen_before_quality_witness:
  "find (\<lambda>q. q_normalized id q = ''what is the average temperature?'')
     (sort_timestamp_desc id [ex_old, ex_failed, ex_mid]) = Some ex_failed \<and>
   \<not> quality_ok id ex_failed \<and>
   q_normalized id ex_old = ''what is the average temperature?'' \<and> quality_ok id ex_old \<and>
   ex_old \<notin> set (snd (filter_golden id [ex_old, ex_failed, ex_mid] 50))"
proof -
  have a: "find (\<lambda>q. q_normalized id q = ''what is the average temperature?'')
     (sort_timestamp_desc id [ex_old, ex_failed, ex_mid]) = Some ex_failed" by code_simp
  have b: "\<not> quality_ok id ex_failed" by code_simp
  have c: "q_normalized id ex_old = ''what is the average temperature?''" by code_simp
  have d: "quality_ok id ex_old" by code_simp
  from filter_golden_seen_before_quality [OF a b, of 50] c
  have "ex_old \<notin> set (snd (filter_golden id [ex_old, ex_failed, ex_mid] 50))" by force
  with a b c d show ?thesis by simp
qed

text \<open>
  C10: the call leaves the caller's list sorted in place: the same references, in
  non-increasing order of timestamp, records of equal timestamp in their former order.
  No record is written (the store is only read), so the list holds the same records
  with the same fields, and the result holds references of that list, in the order of
  the list.
\<close>

theorem filter_golden_in_place:
  "mset (fst (filter_golden h queries target)) = mset queries \<and>
   mset (map h (fst (filter_golden h queries target))) = mset (map h queries) \<and>
   sorted_wrt (\<lambda>a b. timestamp (h a) \<ge> timestamp (h b)) (fst (filter_golden h queries target)) \<and>
   filter (\<lambda>q. timestamp (h q) = t) (fst (filter_golden h queries target)) =
     filter (\<lambda>q. timestamp (h q) = t) queries \<and>
   subseq (snd (filter_golden h queries target)) (fst (filter_golden h queries target))"
proof -
  have "fst (filter_golden h queries target) = sort_timestamp_desc h queries"
    by (simp add: filter_golden_def Let_def)
  moreover have "mset (map h (sort_timestamp_desc h queries)) = mset (map h queries)"
    by (simp add: sort_timestamp_desc_mset)
  ultimately show ?thesis
    by (simp add: sort_timestamp_desc_mset sort_timestamp_desc_sorted
        sort_timestamp_desc_stable golden_subseq)
qed

text \<open>The list [0, 1, 2] of three references is left as [1, 2, 0].\<close>

lemma filter_golden_in_place_example:
  "filter_golden ex_store [0, 1, 2] 50 = ([1, 2, 0], [1, 2, 0])"
  by code_simp

section \<open>Properties of the fetcher\<close>

lemma truthy_iff: "truthy v \<longleftrightarrow> v \<noteq> None \<and> v \<noteq> Some []"
  by (cases v) (simp_all add: truthy_def)

lemma scan_items_eq:
  "scan_items items queries = queries @ map make_query (filter qualifies items)"
  by (induction items arbitrary: queries) (auto simp: qualifies_def)

lemma scan_loop_pages:
  "scan_pages scan k pages \<Longrightarrow>
   scan_loop scan k queries =
     Some (Inr (queries @ map make_query (filter qualifies (scanned_items pages))))"
proof (induction arbitrary: queries rule: scan_pages.induct)
  case (last_page k r)
  then show ?case
    by (subst scan_loop.simps) (simp add: scan_items_eq scanned_items_def)
next
  case (next_page k r k' rs)
  show ?case
    by (subst scan_loop.simps) (simp add: next_page scan_items_eq scanned_items_def)
qed

text \<open>A scan that returns a list has visited a finite run of pages.\<close>

lemma scan_loop_returns_aux:
  "scan_loop scan k queries = Some y \<Longrightarrow>
   \<forall>result. y = Inr result \<longrightarrow> (\<exists>pages. scan_pages scan k pages)"
proof (rule scan_loop.raw_induct
    [where P = "\<lambda>scan k queries y. \<forall>result. y = Inr result \<longrightarrow> (\<exists>pages. scan_pages scan k pages)"])
  fix scan_loop' ::
    "('a option \<Rightarrow> exn + 'a scan_response) \<Rightarrow> 'a option \<Rightarrow> query list \<Rightarrow> (exn + query list) option"
  fix scan k queries y
  assume IH: "\<And>scan_kwargs queries b y. scan_loop' scan_kwargs queries b = Some y \<Longrightarrow>
          \<forall>result. y = Inr result \<longrightarrow> (\<exists>pages. scan_pages scan_kwargs queries pages)"
  assume body: "(case scan k of Inl e \<Rightarrow> Some (Inl e)
        | Inr response \<Rightarrow>
            let queries' = scan_items (get_or (Items response) []) queries
            in case LastEvaluatedKey response of None \<Rightarrow> Some (Inr queries')
               | Some last_key \<Rightarrow> scan_loop' scan (Some last_key) queries') = Some y"
  show "\<forall>result. y = Inr result \<longrightarrow> (\<exists>pages. scan_pages scan k pages)"
  proof (cases "scan k")
    case (Inl e)
    with body show ?thesis by auto
  next
    case (Inr r)
    show ?thesis
    proof (cases "LastEvaluatedKey r")
      case None
      with Inr show ?thesis by (auto intro: scan_pages.last_page)
    next
      case (Some k')
      with body Inr
      have "scan_loop' scan (Some k') (scan_items (get_or (Items r) []) queries) = Some y"
        by (simp add: Let_def)
      from IH [OF this] Inr Some show ?thesis by (auto intro: scan_pages.next_page)
    qed
  qed
qed

lemma scan_chat_history_returns:
  "scan_chat_history scan = Some (Inr result) \<Longrightarrow> \<exists>pages. scan_pages scan None pages"
  unfolding scan_chat_history_def using scan_loop_returns_aux by blast

text \<open>
  C6: when the scan visits the pages \<open>pages\<close>, the fetcher returns, in scan order, one
  record for each scanned item whose \<open>sql\<close>, \<open>question\<close> and \<open>insights\<close> are all present
  and non-empty, and nothing for any other item.  The record of an item carries the
  item's question, sql and insights, and its timestamp, user email and session id where
  it has them (0 and the empty string where it has not).
\<close>

theorem scan_chat_history_qualifying:
  assumes "scan_pages scan None pages"
  shows "scan_chat_history scan =
           Some (Inr (map
             (\<lambda>it. \<lparr>question = the (item_question it),
                    sql = the (item_sql it),
                    insights = the (item_insights it),
                    timestamp = (case item_timestamp it of None \<Rightarrow> 0 | Some t \<Rightarrow> t),
                    user_email = (case item_user_email it of None \<Rightarrow> [] | Some u \<Rightarrow> u),
                    session_id = (case item_session_id it of None \<Rightarrow> [] | Some s \<Rightarrow> s)\<rparr>)
             (filter (\<lambda>it. item_sql it \<notin> {None, Some []} \<and>
                           item_question it \<notin> {None, Some []} \<and>
                           item_insights it \<notin> {None, Some []})
                (concat (map (\<lambda>r. case Items r of None \<Rightarrow> [] | Some items \<Rightarrow> items) pages)))))"
proof -
  have q: "qualifies = (\<lambda>it. item_sql it \<notin> {None, Some []} \<and>
                           item_question it \<notin> {None, Some []} \<and>
                           item_insights it \<notin> {None, Some []})"
    by (auto simp: qualifies_def truthy_iff fun_eq_iff)
  have s: "scanned_items pages =
      concat (map (\<lambda>r. case Items r of None \<Rightarrow> [] | Some items \<Rightarrow> items) pages)"
    by (simp add: scanned_items_def get_or_def)
  have m: "make_query it =
      \<lparr>question = the (item_question it),
       sql = the (item_sql it),
       insights = the (item_insights it),
       timestamp = (case item_timestamp it of None \<Rightarrow> 0 | Some t \<Rightarrow> t),
       user_email = (case item_user_email it of None \<Rightarrow> [] | Some u \<Rightarrow> u),
       session_id = (case item_session_id it of None \<Rightarrow> [] | Some s \<Rightarrow> s)\<rparr>"
    if "qualifies it" for it
    using that by (auto simp: make_query_def get_or_def qualifies_def truthy_def split: option.splits)
  have "map make_query (filter qualifies (scanned_items pages)) =
        map (\<lambda>it. \<lparr>question = the (item_question it),
                    sql = the (item_sql it),
                    insights = the (item_insights it),
                    timestamp = (case item_timestamp it of None \<Rightarrow> 0 | Some t \<Rightarrow> t),
                    user_email = (case item_user_email it of None \<Rightarrow> [] | Some u \<Rightarrow> u),
                    session_id = (case item_session_id it of None \<Rightarrow> [] | Some s \<Rightarrow> s)\<rparr>)
          (filter qualifies (scanned_items pages))"
    by (rule map_cong) (auto dest: m)
  with scan_loop_pages [OF assms, of "[]"] show ?thesis
    unfolding s q by (simp add: scan_chat_history_def)
qed

theorem scan_chat_history_qualifying_witness:
  "scan_pages ex_scan None
     [\<lparr>Items = Some [ex_item_no_sql, ex_item], LastEvaluatedKey = Some 1\<rparr>,
      \<lparr>Items = Some [ex_item_empty_insights, ex_item_short], LastEvaluatedKey = None\<rparr>] \<and>
   scan_chat_history ex_scan =
     Some (Inr [\<lparr>question = ''What is the average temperature?'',
                 sql = ''SELECT avg(temp) FROM readings'',
                 insights = ''The average is 21 degrees'',
                 timestamp = 10, user_email = [], session_id = ''s1''\<rparr>,
                \<lparr>question = ''Why?'',
                 sql = ''SELECT avg(temp) FROM readings'',
                 insights = ''The average is 21 degrees'',
                 timestamp = 10, user_email = [], session_id = ''s1''\<rparr>])"
proof -
  have p: "scan_pages ex_scan None
     [\<lparr>Items = Some [ex_item_no_sql, ex_item], LastEvaluatedKey = Some 1\<rparr>,
      \<lparr>Items = Some [ex_item_empty_insights, ex_item_short], LastEvaluatedKey = None\<rparr>]"
    by (rule scan_pages.next_page [where k' = 1], simp add: ex_scan_def, simp,
        rule scan_pages.last_page, simp add: ex_scan_def, simp)
  from scan_chat_history_qualifying [OF p]
  have "scan_chat_history ex_scan =
     Some (Inr [\<lparr>question = ''What is the average temperature?'',
                 sql = ''SELECT avg(temp) FROM readings'',
                 insights = ''The average is 21 degrees'',
                 timestamp = 10, user_email = [], session_id = ''s1''\<rparr>,
                \<lparr>question = ''Why?'',
                 sql = ''SELECT avg(temp) FROM readings'',
                 insights = ''The average is 21 degrees'',
                 timestamp = 10, user_email = [], session_id = ''s1''\<rparr>])"
    by (simp add: ex_item_def ex_item_no_sql_def ex_item_empty_insights_def ex_item_short_def)
  with p show ?thesis by simp
qed


section \<open>Properties of the publisher\<close>

text \<open>
  C8: the three sequences of the upload have one entry for each accepted example, and
  at every index the input holds only the question, the output the query text and the
  insight text, and the metadata the source tag, the user email, the session id and the
  timestamp as a string.
\<close>

theorem build_upload_aligned:
  "length (upload_inputs (build_upload golden)) = length golden \<and>
   length (upload_outputs (build_upload golden)) = length golden \<and>
   length (upload_metadata (build_upload golden)) = length golden \<and>
   (\<forall>i < length golden.
      upload_inputs (build_upload golden) ! i = [(''question'', question (golden ! i))] \<and>
      upload_outputs (build_upload golden) ! i =
        [(''sql'', sql (golden ! i)), (''insights'', insights (golden ! i))] \<and>
      upload_metadata (build_upload golden) ! i =
        [(''source'', ''dynamodb_chat_history''),
         (''user_email'', user_email (golden ! i)),
         (''session_id'', session_id (golden ! i)),
         (''timestamp'', str_int (timestamp (golden ! i)))])"
proof -
  have i: "upload_inputs (build_upload golden) = inputs golden"
    and out: "upload_outputs (build_upload golden) = outputs golden"
    and m: "upload_metadata (build_upload golden) = metadata golden"
    by (simp_all add: build_upload_def)
  have "length (inputs golden) = length golden" "length (outputs golden) = length golden"
    "length (metadata golden) = length golden"
    by (simp_all add: inputs_def outputs_def metadata_def)
  moreover have "inputs golden ! i = [(''question'', question (golden ! i))]"
    if "i < length golden" for i
    using that by (simp add: inputs_def)
  moreover have "outputs golden ! i =
      [(''sql'', sql (golden ! i)), (''insights'', insights (golden ! i))]"
    if "i < length golden" for i
    using that by (simp add: outputs_def)
  moreover have "metadata golden ! i =
      [(''source'', ''dynamodb_chat_history''),
       (''user_email'', user_email (golden ! i)),
       (''session_id'', session_id (golden ! i)),
       (''timestamp'', str_int (timestamp (golden ! i)))]"
    if "i < length golden" for i
    using that by (simp add: metadata_def)
  ultimately show ?thesis unfolding i out m by simp
qed

theorem build_upload_aligned_witness:
  "(1::nat) < length [ex_top, ex_mid] \<and>
   upload_inputs (build_upload [ex_top, ex_mid]) ! 1 =
     [(''question'', ''How many devices are online now?'')] \<and>
   upload_outputs (build_upload [ex_top, ex_mid]) ! 1 =
     [(''sql'', ''SELECT count(*) FROM devices''), (''insights'', ''12 devices are online'')] \<and>
   upload_metadata (build_upload [ex_top, ex_mid]) ! 1 =
     [(''source'', ''dynamodb_chat_history''), (''user_email'', ''bob@example.com''),
      (''session_id'', ''s3''), (''timestamp'', ''20'')]"
proof -
  have i: "(1::nat) < length [ex_top, ex_mid]" by simp
  have s: "str_int 20 = ''20''" by code_simp
  from build_upload_aligned [of "[ex_top, ex_mid]"] i
  have "upload_inputs (build_upload [ex_top, ex_mid]) ! 1 =
          [(''question'', question ([ex_top, ex_mid] ! 1))] \<and>
        upload_outputs (build_upload [ex_top, ex_mid]) ! 1 =
          [(''sql'', sql ([ex_top, ex_mid] ! 1)), (''insights'', insights ([ex_top, ex_mid] ! 1))] \<and>
        upload_metadata (build_upload [ex_top, ex_mid]) ! 1 =
          [(''source'', ''dynamodb_chat_history''),
           (''user_email'', user_email ([ex_top, ex_mid] ! 1)),
           (''session_id'', session_id ([ex_top, ex_mid] ! 1)),
           (''timestamp'', str_int (timestamp ([ex_top, ex_mid] ! 1)))]"
    by blast
  with i s show ?thesis by (simp add: ex_mid_def)
qed

lemma find_match_filter:
  "find_match ds acc = Inr r \<Longrightarrow>
   r = acc @ filter (\<lambda>d. node_name d = Inr (JStr DATASET_NAME)) ds"
proof (induction ds arbitrary: acc)
  case Nil
  then show ?case by simp
next
  case (Cons d ds)
  from Cons.prems obtain name where name: "node_name d = Inr name"
    by (cases "node_name d") auto
  show ?case
  proof (cases "name = JStr DATASET_NAME")
    case True
    with Cons.prems name have "find_match ds (acc @ [d]) = Inr r" by simp
    from Cons.IH [OF this] name True show ?thesis by simp
  next
    case False
    with Cons.prems name have "find_match ds acc = Inr r" by simp
    from Cons.IH [OF this] name False show ?thesis by simp
  qed
qed

lemma lookup_datasets_name:
  assumes "lookup_datasets body = Inr (m # ms)"
  shows "node_name m = Inr (JStr DATASET_NAME)"
proof -
  from assms obtain elems where "find_match elems [] = Inr (m # ms)"
    by (auto simp: lookup_datasets_def split: sum.splits)
  then have "m # ms = filter (\<lambda>d. node_name d = Inr (JStr DATASET_NAME)) elems"
    by (auto dest: find_match_filter)
  then have "m \<in> set (filter (\<lambda>d. node_name d = Inr (JStr DATASET_NAME)) elems)"
    by (metis list.set_intros(1))
  then show ?thesis by simp
qed






text \<open>
  The status a process ends with, for every way a verification can go: 0 when the lookup
  finds a dataset and reads its count, 1 otherwise.
\<close>

lemma verify_process_status:
  "process_status (snd (verify w e)) =
     (if \<exists>body m ms c. graphql_post w (PHOENIX_URL w @ ''/graphql'') = Inr body \<and>
             lookup_datasets body = Inr (m # ms) \<and> example_count m = Inr c
      then 0 else 1)"
  by (auto simp: verify_def split: sum.splits list.splits)

lemma publish_process_status:
  "process_status (snd (publish w golden)) =
     (case create_dataset w (PHOENIX_URL w) (build_upload golden) of
        None \<Rightarrow> 0 | Some e \<Rightarrow> process_status (snd (verify w e)))"
  by (simp add: publish_def Let_def split: option.splits)

lemma main_process_status:
  assumes "scan_chat_history (dynamodb_scan w (CHAT_HISTORY_TABLE w)) = Some (Inr queries)"
  shows "map_option (process_status \<circ> snd) (main w) =
     Some (if queries = [] then 1
           else if snd (filter_golden id queries TARGET_COUNT) = [] then 1
           else process_status (snd (publish w (snd (filter_golden id queries TARGET_COUNT)))))"
  using assms by (simp add: main_def Let_def)

lemma main_process_status_raised:
  assumes "scan_chat_history (dynamodb_scan w (CHAT_HISTORY_TABLE w)) = Some (Inl e)"
  shows "map_option (process_status \<circ> snd) (main w) = Some 1"
  using assms by (simp add: main_def)

lemma main_process_status_diverges:
  assumes "scan_chat_history (dynamodb_scan w (CHAT_HISTORY_TABLE w)) = None"
  shows "map_option (process_status \<circ> snd) (main w) = None"
  using assms by (simp add: main_def)



text \<open>
  C2, as stated, fails: the process exits with status 1 in further cases.  A required
  package cannot be imported, while the table holds a qualifying record that passes the
  filter and the dataset service accepts the upload.  The scan raises, so that the fetch
  yields no list at all.  The upload raises and the verification finds the dataset of
  the fixed name in the answer, but the answer gives no example count for it, and the
  \<open>KeyError\<close> is caught by nobody.
\<close>

theorem run_exit_status_counterexample:
  "map_option (process_status \<circ> snd) (run ex_world_no_imports) = Some 1 \<and>
   scan_chat_history (dynamodb_scan ex_world_no_imports (CHAT_HISTORY_TABLE ex_world_no_imports)) =
     Some (Inr [make_query ex_item]) \<and>
   snd (filter_golden id [make_query ex_item] TARGET_COUNT) = [make_query ex_item] \<and>
   create_dataset ex_world_no_imports (PHOENIX_URL ex_world_no_imports)
     (build_upload [make_query ex_item]) = None \<and>
   map_option (process_status \<circ> snd) (run ex_world_scan_raises) = Some 1 \<and>
   import_ok ex_world_scan_raises \<and>
   scan_chat_history (dynamodb_scan ex_world_scan_raises (CHAT_HISTORY_TABLE ex_world_scan_raises)) =
     Some (Inl (OtherError ''AccessDeniedException'')) \<and>
   map_option (process_status \<circ> snd) (run ex_world_no_count) = Some 1 \<and>
   import_ok ex_world_no_count \<and>
   scan_chat_history (dynamodb_scan ex_world_no_count (CHAT_HISTORY_TABLE ex_world_no_count)) =
     Some (Inr [make_query ex_item]) \<and>
   create_dataset ex_world_no_count (PHOENIX_URL ex_world_no_count)
     (build_upload [make_query ex_item]) = Some KeyError \<and>
   graphql_post ex_world_no_count (PHOENIX_URL ex_world_no_count @ ''/graphql'') =
     Inr (JObj [(''data'', JObj [(''datasets'', JObj [(''edges'',
       JArr [JObj [(''node'', JObj [(''name'', JStr ''analytics-golden-queries'')])]])])])]) \<and>
   lookup_datasets
     (JObj [(''data'', JObj [(''datasets'', JObj [(''edges'',
       JArr [JObj [(''node'', JObj [(''name'', JStr ''analytics-golden-queries'')])]])])])]) =
     Inr [JObj [(''node'', JObj [(''name'', JStr ''analytics-golden-queries'')])]] \<and>
   run ex_world_no_count =
     Some ([Scanning ''songbird-chat-history'', Found 1, Filtered_to 1, Sample_examples,
            Sample_question 1 ''What is the average temperature?'',
            Sample_sql ''SELECT avg(temp) FROM readings'',
            Sample_insights ''The average is 21 degrees'',
            Connecting ''https://phoenix.songbird.live'',
            Creating ''analytics-golden-queries'' 1], Uncaught KeyError)"
proof -
  have a1: "map_option (process_status \<circ> snd) (run ex_world_no_imports) = Some 1"
    by (simp add: run_def ex_world_no_imports_def)
  have a2: "scan_chat_history
      (dynamodb_scan ex_world_no_imports (CHAT_HISTORY_TABLE ex_world_no_imports)) =
     Some (Inr [make_query ex_item])" by code_simp
  have a3: "snd (filter_golden id [make_query ex_item] TARGET_COUNT) = [make_query ex_item]"
    by code_simp
  have a4: "create_dataset ex_world_no_imports (PHOENIX_URL ex_world_no_imports)
     (build_upload [make_query ex_item]) = None"
    by (simp add: ex_world_no_imports_def)
  have b1: "map_option (process_status \<circ> snd) (run ex_world_scan_raises) = Some 1"
    by code_simp
  have b2: "import_ok ex_world_scan_raises"
    by (simp add: ex_world_scan_raises_def ex_world_def)
  have b3: "scan_chat_history
      (dynamodb_scan ex_world_scan_raises (CHAT_HISTORY_TABLE ex_world_scan_raises)) =
     Some (Inl (OtherError ''AccessDeniedException''))" by code_simp
  have c1: "map_option (process_status \<circ> snd) (run ex_world_no_count) = Some 1"
    by code_simp
  have c2: "import_ok ex_world_no_count"
    by (simp add: ex_world_no_count_def ex_world_def)
  have c3: "scan_chat_history
      (dynamodb_scan ex_world_no_count (CHAT_HISTORY_TABLE ex_world_no_count)) =
     Some (Inr [make_query ex_item])" by code_simp
  have c4: "create_dataset ex_world_no_count (PHOENIX_URL ex_world_no_count)
     (build_upload [make_query ex_item]) = Some KeyError"
    by (simp add: ex_world_no_count_def ex_world_def)
  have c5: "graphql_post ex_world_no_count (PHOENIX_URL ex_world_no_count @ ''/graphql'') =
     Inr (JObj [(''data'', JObj [(''datasets'', JObj [(''edges'',
       JArr [JObj [(''node'', JObj [(''name'', JStr ''analytics-golden-queries'')])]])])])])"
    by (simp add: ex_world_no_count_def ex_body_def)
  have c6: "lookup_datasets
     (JObj [(''data'', JObj [(''datasets'', JObj [(''edges'',
       JArr [JObj [(''node'', JObj [(''name'', JStr ''analytics-golden-queries'')])]])])])]) =
     Inr [JObj [(''node'', JObj [(''name'', JStr ''analytics-golden-queries'')])]]"
    by code_simp
  have c7: "run ex_world_no_count =
     Some ([Scanning ''songbird-chat-history'', Found 1, Filtered_to 1, Sample_examples,
            Sample_question 1 ''What is the average temperature?'',
            Sample_sql ''SELECT avg(temp) FROM readings'',
            Sample_insights ''The average is 21 degrees'',
            Connecting ''https://phoenix.songbird.live'',
            Creating ''analytics-golden-queries'' 1], Uncaught KeyError)"
    by code_simp
  from a1 a2 a3 a4 b1 b2 b3 c1 c2 c3 c4 c5 c6 c7 show ?thesis by simp
qed

text \<open>
  C2, amended: the process exits with status 0 on success (the upload returns, or it
  raises and the verification finds a dataset of the fixed name and reads its example
  count), and with status 1 in exactly these cases: a required package cannot be
  imported, the scan of the table raises, the fetch yields no qualifying record, no
  record passes the filter, or the upload raises and the verification does not confirm
  the dataset (it raises, or finds no dataset of the fixed name).  A process that an
  uncaught exception ends has status 1.
\<close>

theorem run_exit_status:
  "(map_option (process_status \<circ> snd) (run w) = Some 0) =
     (import_ok w \<and>
      (\<exists>queries. scan_chat_history (dynamodb_scan w (CHAT_HISTORY_TABLE w)) = Some (Inr queries) \<and>
         queries \<noteq> [] \<and> snd (filter_golden id queries TARGET_COUNT) \<noteq> [] \<and>
         (create_dataset w (PHOENIX_URL w)
            (build_upload (snd (filter_golden id queries TARGET_COUNT))) = None \<or>
          (\<exists>e. create_dataset w (PHOENIX_URL w)
               (build_upload (snd (filter_golden id queries TARGET_COUNT))) = Some e) \<and>
          (\<exists>body m ms c.
             graphql_post w (PHOENIX_URL w @ ''/graphql'') = Inr body \<and>
             lookup_datasets body = Inr (m # ms) \<and> example_count m = Inr c)))) \<and>
   (map_option (process_status \<circ> snd) (run w) = Some 1) =
     (\<not> import_ok w \<or>
      (\<exists>e. scan_chat_history (dynamodb_scan w (CHAT_HISTORY_TABLE w)) = Some (Inl e)) \<or>
      (\<exists>queries. scan_chat_history (dynamodb_scan w (CHAT_HISTORY_TABLE w)) = Some (Inr queries) \<and>
         (queries = [] \<or> snd (filter_golden id queries TARGET_COUNT) = [] \<or>
          (\<exists>e. create_dataset w (PHOENIX_URL w)
               (build_upload (snd (filter_golden id queries TARGET_COUNT))) = Some e) \<and>
          \<not> (\<exists>body m ms c.
             graphql_post w (PHOENIX_URL w @ ''/graphql'') = Inr body \<and>
             lookup_datasets body = Inr (m # ms) \<and> example_count m = Inr c))))"
proof (cases "import_ok w")
  case False
  then show ?thesis by (simp add: run_def)
next
  case True
  then have r: "run w = main w" by (simp add: run_def)
  show ?thesis
  proof (cases "scan_chat_history (dynamodb_scan w (CHAT_HISTORY_TABLE w))")
    case None
    show ?thesis
      unfolding r main_process_status_diverges [OF None]
      using None True by simp
  next
    case (Some result)
    show ?thesis
    proof (cases result)
      case (Inl e)
      with Some have s: "scan_chat_history (dynamodb_scan w (CHAT_HISTORY_TABLE w)) = Some (Inl e)"
        by simp
      show ?thesis
        unfolding r main_process_status_raised [OF s]
        using s True by simp
    next
      case (Inr queries)
      with Some have q:
        "scan_chat_history (dynamodb_scan w (CHAT_HISTORY_TABLE w)) = Some (Inr queries)"
        by simp
      show ?thesis
        unfolding r main_process_status [OF q] q
        using True
        by (auto simp: publish_process_status verify_process_status split: option.splits)
    qed
  qed
qed

theorem run_exit_status_witness:
  "import_ok ex_world_unconfirmed \<and>
   scan_chat_history (dynamodb_scan ex_world_unconfirmed (CHAT_HISTORY_TABLE ex_world_unconfirmed)) =
     Some (Inr [make_query ex_item]) \<and>
   create_dataset ex_world_unconfirmed (PHOENIX_URL ex_world_unconfirmed)
     (build_upload (snd (filter_golden id [make_query ex_item] TARGET_COUNT))) = Some KeyError \<and>
   graphql_post ex_world_unconfirmed (PHOENIX_URL ex_world_unconfirmed @ ''/graphql'') =
     Inr (JObj [(''data'', JObj [(''datasets'', JObj [(''edges'',
       JArr [JObj [(''node'', JObj [(''name'', JStr ''other''), (''exampleCount'', JNum 7)])]])])])]) \<and>
   lookup_datasets
     (JObj [(''data'', JObj [(''datasets'', JObj [(''edges'',
       JArr [JObj [(''node'', JObj [(''name'', JStr ''other''), (''exampleCount'', JNum 7)])]])])])]) =
     Inr [] \<and>
   map_option (process_status \<circ> snd) (run ex_world_unconfirmed) = Some 1 \<and>
   map_option (process_status \<circ> snd) (run ex_world) = Some 0"
proof -
  have h1: "import_ok ex_world_unconfirmed" by (simp add: ex_world_unconfirmed_def ex_world_def)
  have h2: "scan_chat_history
      (dynamodb_scan ex_world_unconfirmed (CHAT_HISTORY_TABLE ex_world_unconfirmed)) =
     Some (Inr [make_query ex_item])" by code_simp
  have h3: "create_dataset ex_world_unconfirmed (PHOENIX_URL ex_world_unconfirmed)
     (build_upload (snd (filter_golden id [make_query ex_item] TARGET_COUNT))) = Some KeyError"
    by (simp add: ex_world_unconfirmed_def ex_world_def)
  have h4: "graphql_post ex_world_unconfirmed (PHOENIX_URL ex_world_unconfirmed @ ''/graphql'') =
     Inr (JObj [(''data'', JObj [(''datasets'', JObj [(''edges'',
       JArr [JObj [(''node'', JObj [(''name'', JStr ''other''), (''exampleCount'', JNum 7)])]])])])])"
    by (simp add: ex_world_unconfirmed_def ex_body_def ex_edge_def)
  have h5: "lookup_datasets
     (JObj [(''data'', JObj [(''datasets'', JObj [(''edges'',
       JArr [JObj [(''node'', JObj [(''name'', JStr ''other''), (''exampleCount'', JNum 7)])]])])])]) =
     Inr []" by code_simp
  from h4 h5 have h6: "\<not> (\<exists>body m ms c.
      graphql_post ex_world_unconfirmed (PHOENIX_URL ex_world_unconfirmed @ ''/graphql'') = Inr body \<and>
      lookup_datasets body = Inr (m # ms) \<and> example_count m = Inr c)"
    by auto
  have one: "map_option (process_status \<circ> snd) (run ex_world_unconfirmed) = Some 1"
    using run_exit_status [of ex_world_unconfirmed] h1 h2 h3 h6 by blast
  have g1: "import_ok ex_world" by (simp add: ex_world_def)
  have g2: "scan_chat_history (dynamodb_scan ex_world (CHAT_HISTORY_TABLE ex_world)) =
     Some (Inr [make_query ex_item])" by code_simp
  have g3: "[make_query ex_item] \<noteq> []"
    "snd (filter_golden id [make_query ex_item] TARGET_COUNT) \<noteq> []" by simp code_simp
  have g4: "create_dataset ex_world (PHOENIX_URL ex_world)
     (build_upload (snd (filter_golden id [make_query ex_item] TARGET_COUNT))) = Some KeyError"
    by (simp add: ex_world_def)
  have g5: "graphql_post ex_world (PHOENIX_URL ex_world @ ''/graphql'') =
     Inr (ex_body [ex_edge ''other'' 7, ex_edge DATASET_NAME 42])" by (simp add: ex_world_def)
  have g6: "lookup_datasets (ex_body [ex_edge ''other'' 7, ex_edge DATASET_NAME 42]) =
     Inr [ex_edge DATASET_NAME 42]" by code_simp
  have g7: "example_count (ex_edge DATASET_NAME 42) = Inr (JNum 42)" by code_simp
  have zero: "map_option (process_status \<circ> snd) (run ex_world) = Some 0"
    using run_exit_status [of ex_world] g1 g2 g3 g4 g5 g6 g7 by blast
  from h1 h2 h3 h4 h5 one zero show ?thesis by simp
qed

end
